theory Spec2Isabelle
  imports Complex_Main "HOL-Library.Word" "HOL-Library.Sublist"
begin

section \<open>Packet decoding (brainconnect.py, connect.py)\<close>

text \<open>
  A notification payload is a Python \<open>bytearray\<close>: a sequence of integers in 0..255.
  Indexing past the end raises \<open>IndexError\<close>; calls into the Bluetooth stack may raise
  an error of the stack (\<open>BleakError\<close>).
\<close>

type_synonym byte = "8 word"

datatype exn = IndexError | BleakError

definition getitem :: "'a list \<Rightarrow> nat \<Rightarrow> exn + 'a" where
  "getitem data i = (if i < length data then Inr (data ! i) else Inl IndexError)"

definition and_then :: "exn + 'a \<Rightarrow> ('a \<Rightarrow> exn + 'b) \<Rightarrow> exn + 'b" where
  "and_then m f = (case m of Inl e \<Rightarrow> Inl e | Inr v \<Rightarrow> f v)"

subsection \<open>\<open>calculate_signal_quality\<close> (brainconnect.py, lines 138-156)\<close>

text \<open>
  \<open>data[0]\<close> is read only after the guard \<open>len(data) < 2\<close> has failed, so it is in
  range; \<open>data[2:]\<close> is \<open>drop 2 data\<close> (a slice never raises); \<open>len(set(...))\<close> is the
  number of distinct values.
\<close>

definition calculate_signal_quality :: "byte list \<Rightarrow> int" where
  "calculate_signal_quality data =
     (if length data < 2 then 30
      else
        let has_valid_sync = (data ! 0 = 0xAA);
            has_non_zero_data = list_ex (\<lambda>byte. 0 < byte) (drop 2 data);
            has_variation = (2 < card (set (drop 2 data)))
        in if has_valid_sync \<and> has_non_zero_data \<and> has_variation then 95
           else if has_valid_sync \<and> has_non_zero_data then 80
           else if has_valid_sync then 60
           else if has_non_zero_data then 40
           else 20)"

subsection \<open>\<open>parse_brainlink_data\<close>, rich profile (brainconnect.py, lines 112-135)\<close>

text \<open>
  The function returns a dictionary: either \<open>{"error": "Incomplete data"}\<close> or the nine
  fields of a reading. Python's floats are idealised as reals. The timestamp is the event
  loop's clock, passed in as \<open>now\<close>. The statements are executed in source order, so the
  first index out of range decides the exception.
\<close>

record reading =
  attention :: int
  meditation :: int
  delta :: real
  theta :: real
  alpha :: real
  beta :: real
  gamma :: real
  signal_quality :: int
  timestamp :: real

datatype parsed = ErrorDict string | ReadingDict reading

definition parse_brainlink_data :: "real \<Rightarrow> byte list \<Rightarrow> exn + parsed" where
  "parse_brainlink_data now data =
     (if length data < 10 then Inr (ErrorDict ''Incomplete data'')
      else
        and_then (getitem data 8) (\<lambda>d8.
        and_then (getitem data 9) (\<lambda>d9.
        and_then (getitem data 10) (\<lambda>d10.
        and_then (getitem data 11) (\<lambda>d11.
        and_then (getitem data 12) (\<lambda>d12.
        and_then (getitem data 13) (\<lambda>d13.
        and_then (getitem data 14) (\<lambda>d14.
          Inr (ReadingDict
            \<lparr> attention = min (max (uint d8) 0) 100,
              meditation = min (max (uint d9) 0) 100,
              delta = min ((real (unat d10) / 255) * 100) 100,
              theta = min ((real (unat d11) / 255) * 100) 100,
              alpha = min ((real (unat d12) / 255) * 100) 100,
              beta = min ((real (unat d13) / 255) * 100) 100,
              gamma = min ((real (unat d14) / 255) * 100) 100,
              signal_quality = calculate_signal_quality data,
              timestamp = now \<rparr>)))))))))"

subsection \<open>\<open>parse_brainlink_data\<close>, minimal profile (connect.py, lines 18-31)\<close>

text \<open>The function returns \<open>None\<close> for a short packet, else a dictionary of two raw bytes.\<close>

record minimal_reading =
  Attention :: int
  Meditation :: int

definition connect_parse_brainlink_data :: "byte list \<Rightarrow> exn + minimal_reading option" where
  "connect_parse_brainlink_data data =
     (if length data < 3 then Inr None
      else
        and_then (getitem data 1) (\<lambda>attention.
        and_then (getitem data 2) (\<lambda>meditation.
          Inr (Some \<lparr> Attention = uint attention, Meditation = uint meditation \<rparr>))))"

section \<open>Device matching\<close>

text \<open>
  A scan result carries an optional name and an address. Names are modelled as strings
  of 8-bit characters; \<open>str.lower()\<close> is modelled on the ASCII letters, which is where
  the keywords live. Python's \<open>needle in haystack\<close> on strings is a substring test.
\<close>

record device =
  name :: "string option"
  address :: string

definition lower_char :: "char \<Rightarrow> char" where
  "lower_char c =
     (let n = (of_char c :: nat) in if 65 \<le> n \<and> n \<le> 90 then char_of (n + 32) else c)"

definition lower :: "string \<Rightarrow> string" where
  "lower s = map lower_char s"

fun str_in :: "string \<Rightarrow> string \<Rightarrow> bool" where
  "str_in needle [] = (needle = [])"
| "str_in needle (c # cs) = (prefix needle (c # cs) \<or> str_in needle cs)"

subsection \<open>\<open>find_device\<close> (brainconnect.py, lines 29-37)\<close>

text \<open>
  The loop over the scan results; \<open>device.name or ""\<close> turns a missing name into the
  empty string. The scan itself (\<open>BleakScanner.discover\<close>) is a call into the stack and
  is part of \<open>connect_to_device\<close> below.
\<close>

fun find_device :: "device list \<Rightarrow> device option" where
  "find_device [] = None"
| "find_device (device # devices) =
     (if list_ex (\<lambda>prefix. str_in prefix (lower (case name device of None \<Rightarrow> [] | Some n \<Rightarrow> n)))
           [''brainlink'', ''brain'', ''eeg'', ''neuro'']
      then Some device
      else find_device devices)"

subsection \<open>\<open>scan_for_brainlink\<close> (connect.py, lines 33-54)\<close>

text \<open>\<open>device.name and "Brain" in device.name\<close>: a missing or empty name is falsy.\<close>

fun scan_loop :: "device list \<Rightarrow> device option" where
  "scan_loop [] = None"
| "scan_loop (device # devices) =
     (if (case name device of None \<Rightarrow> False | Some n \<Rightarrow> n \<noteq> [] \<and> str_in ''Brain'' n)
      then Some device
      else scan_loop devices)"

definition scan_for_brainlink :: "device list \<Rightarrow> device option" where
  "scan_for_brainlink devices = (if devices = [] then None else scan_loop devices)"

section \<open>Service and characteristic resolution\<close>

definition POSSIBLE_SERVICE_UUIDS :: "string list" where
  "POSSIBLE_SERVICE_UUIDS =
     [''0000fee9-0000-1000-8000-00805f9b34fb'',
      ''0000180f-0000-1000-8000-00805f9b34fb'',
      ''0000180a-0000-1000-8000-00805f9b34fb'',
      ''0000ffe0-0000-1000-8000-00805f9b34fb'',
      ''6e400001-b5a3-f393-e0a9-e50e24dcca9e'',
      ''00001800-0000-1000-8000-00805f9b34fb'',
      ''00001801-0000-1000-8000-00805f9b34fb'']"

definition POSSIBLE_CHARACTERISTIC_UUIDS :: "string list" where
  "POSSIBLE_CHARACTERISTIC_UUIDS =
     [''0000fee1-0000-1000-8000-00805f9b34fb'',
      ''00002a19-0000-1000-8000-00805f9b34fb'',
      ''00002a29-0000-1000-8000-00805f9b34fb'',
      ''6e400003-b5a3-f393-e0a9-e50e24dcca9e'',
      ''00002a00-0000-1000-8000-00805f9b34fb'',
      ''00002a01-0000-1000-8000-00805f9b34fb'']"

text \<open>
  A lookup of the stack (\<open>services.get_service\<close>, \<open>service.get_characteristic\<close>) takes a
  UUID and raises, returns \<open>None\<close>, or returns the object found.
\<close>

type_synonym 'a lookup = "string \<Rightarrow> exn + 'a option"

subsection \<open>The candidate searches of \<open>connect_to_device\<close> (brainconnect.py, lines 57-65 and 72-80)\<close>

text \<open>
  Both searches have the same shape: try each candidate in list order; an exception of the
  lookup is swallowed and the loop continues; a \<open>None\<close> result continues; the first
  object found breaks the loop. The variable keeps \<open>None\<close> when the list is exhausted.
\<close>

fun resolve_first :: "'a lookup \<Rightarrow> string list \<Rightarrow> 'a option" where
  "resolve_first get [] = None"
| "resolve_first get (candidate # candidates) =
     (case get candidate of
        Inl e \<Rightarrow> resolve_first get candidates
      | Inr None \<Rightarrow> resolve_first get candidates
      | Inr (Some found) \<Rightarrow> Some found)"

text \<open>
  The lookup of a peripheral that advertises exactly the UUIDs of the set \<open>available\<close>,
  each object standing for its UUID.
\<close>

definition lookup_available :: "string set \<Rightarrow> string lookup" where
  "lookup_available available candidate =
     (if candidate \<in> available then Inr (Some candidate) else Inr None)"

subsection \<open>The service loop of \<open>connect_to_brainlink\<close> (connect.py, lines 76-85)\<close>

text \<open>
  This loop walks the services in the order the peripheral reports them and keeps the
  first whose UUID is in the candidate list. Only the UUID of a service is read.
\<close>

fun connect_found_service :: "string list \<Rightarrow> string option" where
  "connect_found_service [] = None"
| "connect_found_service (service_uuid # services) =
     (if service_uuid \<in> set POSSIBLE_SERVICE_UUIDS then Some service_uuid
      else connect_found_service services)"

section \<open>Session handling (brainconnect.py)\<close>

text \<open>
  The Bluetooth stack is a record of the outcomes of its calls. A client is identified
  by the address it was built from; a characteristic by its UUID (the only attribute
  read). The module's global \<open>connected_client\<close> is the state; the calls made to the
  stack are logged beside it so that effects can be stated.
\<close>

record service =
  uuid :: string
  get_characteristic :: "string lookup"

record ble =
  discover :: "exn + device list"
  connect :: "string \<Rightarrow> exn + unit"
  get_services :: "string \<Rightarrow> exn + service lookup"
  start_notify :: "string \<Rightarrow> string \<Rightarrow> exn + unit"
  disconnect :: "string \<Rightarrow> exn + unit"

datatype call =
  Discover | Connect string | GetServices string | StartNotify string string | Disconnect string

record session =
  connected_client :: "string option"
  calls :: "call list"

definition log :: "call \<Rightarrow> session \<Rightarrow> session" where
  "log c s = s\<lparr>calls := calls s @ [c]\<rparr>"

subsection \<open>\<open>connect_to_device\<close> (brainconnect.py, lines 40-93)\<close>

text \<open>
  \<open>find_device\<close> is awaited before the \<open>try\<close>, so an exception of the scan propagates;
  every exception inside the \<open>try\<close> is caught and the function returns \<open>False\<close>.
\<close>

definition connect_to_device :: "ble \<Rightarrow> session \<Rightarrow> (exn + bool) \<times> session" where
  "connect_to_device env s =
     (let s0 = log Discover s in
      case discover env of
        Inl e \<Rightarrow> (Inl e, s0)
      | Inr devices \<Rightarrow>
          (case find_device devices of
             None \<Rightarrow> (Inr False, s0)
           | Some device \<Rightarrow>
               (let client = address device; s1 = log (Connect client) s0 in
                case connect env client of
                  Inl e \<Rightarrow> (Inr False, s1)
                | Inr _ \<Rightarrow>
                    (let s2 = log (GetServices client) s1 in
                     case get_services env client of
                       Inl e \<Rightarrow> (Inr False, s2)
                     | Inr services \<Rightarrow>
                         (case resolve_first services POSSIBLE_SERVICE_UUIDS of
                            None \<Rightarrow> (Inr False, s2)
                          | Some service \<Rightarrow>
                              (case resolve_first (get_characteristic service)
                                      POSSIBLE_CHARACTERISTIC_UUIDS of
                                 None \<Rightarrow> (Inr False, s2)
                               | Some characteristic \<Rightarrow>
                                   (let s3 = log (StartNotify client characteristic) s2 in
                                    case start_notify env client characteristic of
                                      Inl e \<Rightarrow> (Inr False, s3)
                                    | Inr _ \<Rightarrow>
                                        (Inr True, s3\<lparr>connected_client := Some client\<rparr>))))))))"

subsection \<open>\<open>disconnect_from_device\<close> (brainconnect.py, lines 96-103)\<close>

text \<open>
  The handle is cleared after the awaited \<open>disconnect\<close>; when that call raises, the
  exception propagates and the assignment is not reached.
\<close>

definition disconnect_from_device :: "ble \<Rightarrow> session \<Rightarrow> (exn + unit) \<times> session" where
  "disconnect_from_device env s =
     (case connected_client s of
        None \<Rightarrow> (Inr (), s)
      | Some client \<Rightarrow>
          (let s1 = log (Disconnect client) s in
           case disconnect env client of
             Inl e \<Rightarrow> (Inl e, s1)
           | Inr _ \<Rightarrow> (Inr (), s1\<lparr>connected_client := None\<rparr>)))"

section \<open>The vocabulary of the specification\<close>

text \<open>
  The following definitions follow the words of the specification, not the code; the
  theorems below compare the code with them.
\<close>

subsection \<open>Signal quality: the three booleans and the score table\<close>

definition spec_validSync :: "byte list \<Rightarrow> bool" where
  "spec_validSync payload = (payload ! 0 = 0xAA)"

definition spec_hasSignal :: "byte list \<Rightarrow> bool" where
  "spec_hasSignal payload = (\<exists>i. 2 \<le> i \<and> i < length payload \<and> payload ! i \<noteq> 0)"

definition spec_hasVariation :: "byte list \<Rightarrow> bool" where
  "spec_hasVariation payload = (2 < card {payload ! i | i. 2 \<le> i \<and> i < length payload})"

definition spec_score_table :: "bool \<Rightarrow> bool \<Rightarrow> bool \<Rightarrow> int" where
  "spec_score_table validSync hasSignal hasVariation =
     (if validSync \<and> hasSignal \<and> hasVariation then 95
      else if validSync \<and> hasSignal then 80
      else if validSync then 60
      else if hasSignal then 40
      else 20)"

subsection \<open>Device matching: the two policies and "first in scan order"\<close>

definition spec_keyword_match :: "device \<Rightarrow> bool" where
  "spec_keyword_match d =
     (\<exists>n k. name d = Some n \<and> k \<in> {''brainlink'', ''brain'', ''eeg'', ''neuro''} \<and>
            sublist k (lower n))"

definition spec_strict_match :: "device \<Rightarrow> bool" where
  "spec_strict_match d = (\<exists>n. name d = Some n \<and> sublist ''Brain'' n)"

definition spec_first_match :: "('a \<Rightarrow> bool) \<Rightarrow> 'a list \<Rightarrow> 'a option \<Rightarrow> bool" where
  "spec_first_match P xs r =
     (case r of
        None \<Rightarrow> \<not> (\<exists>x. x \<in> set xs \<and> P x)
      | Some d \<Rightarrow> (\<exists>pre post. xs = pre @ d # post \<and> P d \<and> \<not> (\<exists>x. x \<in> set pre \<and> P x)))"

section \<open>Example peripherals\<close>

text \<open>
  A stack on which every call succeeds: one device named \<open>BrainLink_Pro\<close>, offering the
  first candidate service with the first candidate characteristic. And the same stack
  with a \<open>disconnect\<close> that raises.
\<close>

definition demo_service :: service where
  "demo_service =
     \<lparr> uuid = ''0000fee9-0000-1000-8000-00805f9b34fb'',
       get_characteristic = lookup_available {''0000fee1-0000-1000-8000-00805f9b34fb''} \<rparr>"

definition demo_ble :: ble where
  "demo_ble =
     \<lparr> discover = Inr [\<lparr> name = Some ''RandomBT'', address = ''11:22'' \<rparr>,
                       \<lparr> name = Some ''BrainLink_Pro'', address = ''AA:BB'' \<rparr>],
       connect = (\<lambda>client. Inr ()),
       get_services = (\<lambda>client. Inr (\<lambda>candidate.
          if candidate = ''0000fee9-0000-1000-8000-00805f9b34fb''
          then Inr (Some demo_service) else Inr None)),
       start_notify = (\<lambda>client characteristic. Inr ()),
       disconnect = (\<lambda>client. Inr ()) \<rparr>"

definition failing_ble :: ble where
  "failing_ble = demo_ble\<lparr>disconnect := (\<lambda>client. Inl BleakError)\<rparr>"

text \<open>
  The service lookup of a peripheral that carries the UUID \<open>0000fee9\<close> on two services
  and \<open>0000ffe0\<close> on one: the stack's \<open>get_service\<close> raises for the duplicated UUID.
\<close>

definition duplicated_service_lookup :: "string lookup" where
  "duplicated_service_lookup candidate =
     (if candidate = ''0000fee9-0000-1000-8000-00805f9b34fb'' then Inl BleakError
      else lookup_available {''0000ffe0-0000-1000-8000-00805f9b34fb''} candidate)"

section \<open>Properties of the signal-quality estimator\<close>

lemma calculate_signal_quality_remdups:
  "calculate_signal_quality data =
     (if length data < 2 then 30
      else
        let has_valid_sync = (data ! 0 = 0xAA);
            has_non_zero_data = list_ex (\<lambda>byte. 0 < byte) (drop 2 data);
            has_variation = (2 < length (remdups (drop 2 data)))
        in if has_valid_sync \<and> has_non_zero_data \<and> has_variation then 95
           else if has_valid_sync \<and> has_non_zero_data then 80
           else if has_valid_sync then 60
           else if has_non_zero_data then 40
           else 20)"
  unfolding calculate_signal_quality_def length_remdups_card_conv ..

lemma set_drop_nth: "set (drop n xs) = {xs ! i | i. n \<le> i \<and> i < length xs}"
proof (rule set_eqI)
  fix x
  show "x \<in> set (drop n xs) \<longleftrightarrow> x \<in> {xs ! i | i. n \<le> i \<and> i < length xs}"
  proof
    assume "x \<in> set (drop n xs)"
    then obtain k where k: "k < length (drop n xs)" "drop n xs ! k = x"
      by (auto simp: in_set_conv_nth)
    then have "n \<le> n + k" "n + k < length xs" "xs ! (n + k) = x"
      by auto
    then show "x \<in> {xs ! i | i. n \<le> i \<and> i < length xs}"
      by blast
  next
    assume "x \<in> {xs ! i | i. n \<le> i \<and> i < length xs}"
    then obtain i where i: "n \<le> i" "i < length xs" "x = xs ! i"
      by blast
    then have "i - n < length (drop n xs)" "drop n xs ! (i - n) = x"
      by auto
    then show "x \<in> set (drop n xs)"
      by (metis nth_mem)
  qed
qed

lemma spec_hasSignal_code: "spec_hasSignal data = list_ex (\<lambda>byte. 0 < byte) (drop 2 data)"
proof -
  have "spec_hasSignal data \<longleftrightarrow> (\<exists>x \<in> {data ! i | i. 2 \<le> i \<and> i < length data}. x \<noteq> 0)"
    unfolding spec_hasSignal_def by blast
  also have "\<dots> \<longleftrightarrow> (\<exists>x \<in> set (drop 2 data). 0 < x)"
    by (simp only: set_drop_nth word_neq_0_conv)
  finally show ?thesis
    by (simp add: list_ex_iff)
qed

lemma spec_hasVariation_code: "spec_hasVariation data = (2 < card (set (drop 2 data)))"
  by (simp only: spec_hasVariation_def set_drop_nth)

text \<open>
  C3. The estimator returns 30 for a payload of fewer than two bytes; otherwise it
  returns the first matching row of the score table over the three booleans of the
  specification (sync byte, some nonzero byte from index 2 on, more than two distinct
  byte values from index 2 on). In particular a payload with a valid sync byte and a
  signal but no variation scores exactly 80.
\<close>

theorem calculate_signal_quality_table: "calculate_signal_quality data =
     (if length data < 2 then 30
      else spec_score_table (spec_validSync data) (spec_hasSignal data) (spec_hasVariation data))
   \<and> (2 \<le> length data \<and> spec_validSync data \<and> spec_hasSignal data \<and> \<not> spec_hasVariation data
        \<longrightarrow> calculate_signal_quality data = 80)"
  by (simp add: calculate_signal_quality_def spec_score_table_def spec_validSync_def
      spec_hasSignal_code spec_hasVariation_code)

theorem calculate_signal_quality_table_witness:
  "2 \<le> length [0xAA, 0, 5, 5 :: byte] \<and> spec_validSync [0xAA, 0, 5, 5] \<and>
   spec_hasSignal [0xAA, 0, 5, 5] \<and> \<not> spec_hasVariation [0xAA, 0, 5, 5] \<and>
   calculate_signal_quality [0xAA, 0, 5, 5] = 80 \<and> calculate_signal_quality [0xAA] = 30"
proof -
  have h: "2 \<le> length [0xAA, 0, 5, 5 :: byte] \<and> spec_validSync [0xAA, 0, 5, 5] \<and>
     spec_hasSignal [0xAA, 0, 5, 5] \<and> \<not> spec_hasVariation [0xAA, 0, 5, 5]"
    by (simp add: spec_validSync_def spec_hasSignal_code spec_hasVariation_code)
  show ?thesis
    using h calculate_signal_quality_table [of "[0xAA, 0, 5, 5]"] calculate_signal_quality_table [of "[0xAA]"] by simp
qed

section \<open>Properties of the packet decoders\<close>

lemma parse_brainlink_data_full:
  "15 \<le> length data \<Longrightarrow>
   parse_brainlink_data now data =
     Inr (ReadingDict
       \<lparr> attention = min (max (uint (data ! 8)) 0) 100,
         meditation = min (max (uint (data ! 9)) 0) 100,
         delta = min ((real (unat (data ! 10)) / 255) * 100) 100,
         theta = min ((real (unat (data ! 11)) / 255) * 100) 100,
         alpha = min ((real (unat (data ! 12)) / 255) * 100) 100,
         beta = min ((real (unat (data ! 13)) / 255) * 100) 100,
         gamma = min ((real (unat (data ! 14)) / 255) * 100) 100,
         signal_quality = calculate_signal_quality data,
         timestamp = now \<rparr>)"
  by (simp add: parse_brainlink_data_def getitem_def and_then_def)

lemma parse_brainlink_data_truncated:
  "10 \<le> length data \<Longrightarrow> length data < 15 \<Longrightarrow> parse_brainlink_data now data = Inl IndexError"
  by (simp add: parse_brainlink_data_def getitem_def and_then_def)

lemma parse_brainlink_data_short:
  "length data < 10 \<Longrightarrow> parse_brainlink_data now data = Inr (ErrorDict ''Incomplete data'')"
  by (simp add: parse_brainlink_data_def)

lemma clamp_byte_range: "0 \<le> min (max (uint (b :: byte)) 0) 100 \<and> min (max (uint b) 0) 100 \<le> 100"
  by simp

lemma clamp_byte_eq: "min (max (uint (b :: byte)) 0) 100 = (if uint b \<le> 100 then uint b else 100)"
  by simp

lemma band_range:
  "0 \<le> min ((real (unat (b :: byte)) / 255) * 100) 100 \<and> min ((real (unat b) / 255) * 100) 100 \<le> 100"
proof -
  have "0 \<le> real (unat b)" by (rule of_nat_0_le_iff)
  then have "0 \<le> (real (unat b) / 255) * 100" by (simp del: of_nat_unat)
  then show ?thesis by (simp del: of_nat_unat)
qed

lemma band_unclamped: "min ((real (unat (b :: byte)) / 255) * 100) 100 = (real (unat b) / 255) * 100"
proof -
  have "unat b < 256" using unsigned_less [of b, where ?'a = nat] by simp
  then have "real (unat b) \<le> 255" by (simp del: of_nat_unat)
  then have "(real (unat b) / 255) * 100 \<le> 100" by (simp del: of_nat_unat)
  then show ?thesis by (simp del: of_nat_unat)
qed

lemma reading_of_parse:
  assumes "parse_brainlink_data now data = Inr (ReadingDict r)"
  shows "15 \<le> length data"
proof (rule ccontr)
  assume "\<not> 15 \<le> length data"
  then consider "length data < 10" | "10 \<le> length data" "length data < 15" by linarith
  then show False
  proof cases
    case 1
    then show False using assms by (simp add: parse_brainlink_data_short)
  next
    case 2
    then show False using assms by (simp add: parse_brainlink_data_truncated)
  qed
qed

text \<open>
  C1. The claim: every payload of at least ten bytes decodes to a reading. On the code a
  payload of exactly ten bytes passes the length guard (\<open>len(data) < 10\<close>) and then
  reads \<open>data[10]\<close>, which raises \<open>IndexError\<close>; the guard admits lengths 10 to 14
  although the body reads up to index 14 (see \<open>parse_brainlink_data_truncated\<close> for all
  of them and \<open>parse_brainlink_data_full\<close> for the lengths from 15 on).
\<close>

theorem parse_brainlink_data_ten_bytes_raises: "parse_brainlink_data 0 [0xAA, 0, 0, 0, 0, 0, 0, 0, 77, 55] = Inl IndexError"
  by (simp add: parse_brainlink_data_def getitem_def and_then_def)

text \<open>
  C2. A payload of nine bytes or fewer is answered with the \<open>Incomplete data\<close> error
  dictionary and nothing else: no exception, no reading.
\<close>

theorem parse_brainlink_data_incomplete: "length data \<le> 9 \<Longrightarrow> parse_brainlink_data now data = Inr (ErrorDict ''Incomplete data'')"
  by (simp add: parse_brainlink_data_def)

theorem parse_brainlink_data_incomplete_witness:
  "length [0xAA, 0, 0, 0, 0, 0, 0, 0, 77 :: byte] \<le> 9 \<and>
   parse_brainlink_data 0 [0xAA, 0, 0, 0, 0, 0, 0, 0, 77] = Inr (ErrorDict ''Incomplete data'')"
proof -
  have h: "length [0xAA, 0, 0, 0, 0, 0, 0, 0, 77 :: byte] \<le> 9" by simp
  show ?thesis using h parse_brainlink_data_incomplete [OF h, of 0] by simp
qed

text \<open>
  C8. The 15-byte payload of the end-to-end scenario decodes to attention 77, meditation
  55, delta \<open>(128/255)*100\<close> (about 50.2), theta \<open>(64/255)*100\<close> (about 25.1), alpha
  100, beta \<open>(10/255)*100\<close> (about 3.9), gamma 0 and signal quality 95, whatever the
  clock reads.
\<close>

theorem parse_brainlink_data_example:
  "parse_brainlink_data now [0xAA, 0x00, 0, 0, 0, 0, 0, 0, 77, 55, 128, 64, 255, 10, 0] =
     Inr (ReadingDict
       \<lparr> attention = 77, meditation = 55,
         delta = (128 / 255) * 100, theta = (64 / 255) * 100, alpha = 100,
         beta = (10 / 255) * 100, gamma = 0,
         signal_quality = 95, timestamp = now \<rparr>)
   \<and> \<bar>(128 / 255) * 100 - 50.2 :: real\<bar> < 0.05
   \<and> \<bar>(64 / 255) * 100 - 25.1 :: real\<bar> < 0.05
   \<and> \<bar>(10 / 255) * 100 - 3.9 :: real\<bar> < 0.05"
  by (simp add: parse_brainlink_data_def getitem_def and_then_def calculate_signal_quality_remdups)

text \<open>
  C9. Under the minimal profile a payload of fewer than three bytes is rejected
  (\<open>None\<close>, no reading), and a payload of at least three bytes decodes to attention =
  byte 1 and meditation = byte 2; the result type has no other field.
\<close>

theorem connect_parse_brainlink_data_spec:
  "(length data < 3 \<longrightarrow> connect_parse_brainlink_data data = Inr None) \<and>
   (3 \<le> length data \<longrightarrow>
      connect_parse_brainlink_data data =
        Inr (Some \<lparr> Attention = uint (data ! 1), Meditation = uint (data ! 2) \<rparr>))"
  by (simp add: connect_parse_brainlink_data_def getitem_def and_then_def)

theorem connect_parse_brainlink_data_spec_witness:
  "length [0x02, 200 :: byte] < 3 \<and> connect_parse_brainlink_data [0x02, 200] = Inr None \<and>
   3 \<le> length [0x02, 200, 3, 9 :: byte] \<and>
   connect_parse_brainlink_data [0x02, 200, 3, 9] = Inr (Some \<lparr> Attention = 200, Meditation = 3 \<rparr>)"
proof -
  have h1: "length [0x02, 200 :: byte] < 3" by simp
  have h2: "3 \<le> length [0x02, 200, 3, 9 :: byte]" by simp
  show ?thesis
    using h1 h2 connect_parse_brainlink_data_spec [of "[0x02, 200]"]
      connect_parse_brainlink_data_spec [of "[0x02, 200, 3, 9]"] by simp
qed

text \<open>
  C7, as stated, fails under the minimal profile: the raw byte 200 is returned as the
  attention value.
\<close>

theorem minimal_reading_out_of_range:
  "connect_parse_brainlink_data [0x02, 200, 3] = Inr (Some \<lparr> Attention = 200, Meditation = 3 \<rparr>) \<and>
   \<not> Attention \<lparr> Attention = 200, Meditation = 3 \<rparr> \<le> 100"
  by (simp add: connect_parse_brainlink_data_def getitem_def and_then_def)

text \<open>
  C7, amended. Every reading produced under the rich profile has attention and
  meditation in [0,100] and each of the five band values in [0,100]; every reading
  produced under the minimal profile has attention and meditation in [0,255] (the raw
  bytes, not clamped).
\<close>

theorem readings_in_range:
  "(parse_brainlink_data now data = Inr (ReadingDict r) \<longrightarrow>
      0 \<le> attention r \<and> attention r \<le> 100 \<and> 0 \<le> meditation r \<and> meditation r \<le> 100 \<and>
      0 \<le> delta r \<and> delta r \<le> 100 \<and> 0 \<le> theta r \<and> theta r \<le> 100 \<and>
      0 \<le> alpha r \<and> alpha r \<le> 100 \<and> 0 \<le> beta r \<and> beta r \<le> 100 \<and>
      0 \<le> gamma r \<and> gamma r \<le> 100) \<and>
   (connect_parse_brainlink_data data = Inr (Some m) \<longrightarrow>
      0 \<le> Attention m \<and> Attention m \<le> 255 \<and> 0 \<le> Meditation m \<and> Meditation m \<le> 255)"
proof (intro conjI impI)
  assume p: "parse_brainlink_data now data = Inr (ReadingDict r)"
  then have "15 \<le> length data" by (rule reading_of_parse)
  from parse_brainlink_data_full [OF this, of now] p
  have r: "r = \<lparr> attention = min (max (uint (data ! 8)) 0) 100,
         meditation = min (max (uint (data ! 9)) 0) 100,
         delta = min ((real (unat (data ! 10)) / 255) * 100) 100,
         theta = min ((real (unat (data ! 11)) / 255) * 100) 100,
         alpha = min ((real (unat (data ! 12)) / 255) * 100) 100,
         beta = min ((real (unat (data ! 13)) / 255) * 100) 100,
         gamma = min ((real (unat (data ! 14)) / 255) * 100) 100,
         signal_quality = calculate_signal_quality data,
         timestamp = now \<rparr>" by simp
  show "0 \<le> attention r" "attention r \<le> 100" "0 \<le> meditation r" "meditation r \<le> 100"
    by (simp_all add: r)
  show "0 \<le> delta r" "delta r \<le> 100" "0 \<le> theta r" "theta r \<le> 100"
    "0 \<le> alpha r" "alpha r \<le> 100" "0 \<le> beta r" "beta r \<le> 100"
    "0 \<le> gamma r" "gamma r \<le> 100"
    using band_range by (simp_all add: r del: of_nat_unat)
next
  assume "connect_parse_brainlink_data data = Inr (Some m)"
  then have m: "m = \<lparr> Attention = uint (data ! 1), Meditation = uint (data ! 2) \<rparr>"
    by (auto simp: connect_parse_brainlink_data_def getitem_def and_then_def split: if_splits)
  have b: "uint (x :: byte) \<le> 255" for x
    using uint_lt2p [of x] by simp
  show "0 \<le> Attention m" "Attention m \<le> 255" "0 \<le> Meditation m" "Meditation m \<le> 255"
    by (simp_all add: m b)
qed

theorem readings_in_range_witness:
  "parse_brainlink_data 0 [0xAA, 0x00, 0, 0, 0, 0, 0, 0, 177, 55, 128, 64, 255, 10, 0] =
     Inr (ReadingDict
       \<lparr> attention = 100, meditation = 55,
         delta = (128 / 255) * 100, theta = (64 / 255) * 100, alpha = 100,
         beta = (10 / 255) * 100, gamma = 0,
         signal_quality = 95, timestamp = 0 \<rparr>) \<and>
   connect_parse_brainlink_data [0x02, 200, 3] =
     Inr (Some \<lparr> Attention = 200, Meditation = 3 \<rparr>) \<and>
   (128 / 255) * 100 \<le> (100 :: real) \<and> (200 :: int) \<le> 255"
proof -
  have h1: "parse_brainlink_data 0 [0xAA, 0x00, 0, 0, 0, 0, 0, 0, 177, 55, 128, 64, 255, 10, 0] =
     Inr (ReadingDict
       \<lparr> attention = 100, meditation = 55,
         delta = (128 / 255) * 100, theta = (64 / 255) * 100, alpha = 100,
         beta = (10 / 255) * 100, gamma = 0,
         signal_quality = 95, timestamp = 0 \<rparr>)"
    by (simp add: parse_brainlink_data_def getitem_def and_then_def
        calculate_signal_quality_remdups)
  have h2: "connect_parse_brainlink_data [0x02, 200, 3] =
     Inr (Some \<lparr> Attention = 200, Meditation = 3 \<rparr>)"
    by (simp add: connect_parse_brainlink_data_def getitem_def and_then_def)
  show ?thesis
    using h1 h2
      readings_in_range [where now = 0
        and data = "[0xAA, 0x00, 0, 0, 0, 0, 0, 0, 177, 55, 128, 64, 255, 10, 0]"
        and r = "\<lparr> attention = 100, meditation = 55,
         delta = (128 / 255) * 100, theta = (64 / 255) * 100, alpha = 100,
         beta = (10 / 255) * 100, gamma = 0,
         signal_quality = 95, timestamp = 0 \<rparr>"]
      readings_in_range [where data = "[0x02, 200, 3]"
        and m = "\<lparr> Attention = 200, Meditation = 3 \<rparr>"]
    by simp
qed

section \<open>Properties of the device matchers\<close>

lemma str_in_sublist: "str_in needle haystack \<longleftrightarrow> sublist needle haystack"
  by (induction haystack) (auto simp: sublist_Cons_right)

lemma first_match_find: "spec_first_match P xs (List.find P xs)"
proof (cases "List.find P xs")
  case None
  have "\<not> (\<exists>x. x \<in> set xs \<and> P x)"
    using None find_None_iff [of P xs] by blast
  then show ?thesis
    unfolding spec_first_match_def None by simp
next
  case (Some d)
  then obtain i where i: "i < length xs" "P (xs ! i)" "d = xs ! i" "\<forall>j<i. \<not> P (xs ! j)"
    unfolding find_Some_iff by blast
  have "xs = take i xs @ d # drop (Suc i) xs"
    using i by (simp add: id_take_nth_drop)
  moreover have "\<not> (\<exists>x. x \<in> set (take i xs) \<and> P x)"
    using i by (auto simp: in_set_conv_nth)
  moreover have "P d" using i by simp
  ultimately have "\<exists>pre post. xs = pre @ d # post \<and> P d \<and> \<not> (\<exists>x. x \<in> set pre \<and> P x)"
    by blast
  then show ?thesis
    unfolding spec_first_match_def Some by simp
qed

lemma lower_Nil: "lower [] = []"
  by (simp add: lower_def)

lemma keyword_test:
  "list_ex (\<lambda>prefix. str_in prefix (lower (case name d of None \<Rightarrow> [] | Some n \<Rightarrow> n)))
      [''brainlink'', ''brain'', ''eeg'', ''neuro'']
   \<longleftrightarrow> spec_keyword_match d"
proof (cases "name d")
  case None
  then show ?thesis
    by (simp add: spec_keyword_match_def lower_Nil)
next
  case (Some n)
  have "spec_keyword_match d \<longleftrightarrow>
        (\<exists>k. k \<in> {''brainlink'', ''brain'', ''eeg'', ''neuro''} \<and> sublist k (lower n))"
    unfolding spec_keyword_match_def Some by simp
  also have "\<dots> \<longleftrightarrow> sublist ''brainlink'' (lower n) \<or> sublist ''brain'' (lower n) \<or>
        sublist ''eeg'' (lower n) \<or> sublist ''neuro'' (lower n)"
    by blast
  finally show ?thesis
    unfolding Some str_in_sublist by simp
qed

lemma strict_test:
  "(case name d of None \<Rightarrow> False | Some n \<Rightarrow> n \<noteq> [] \<and> str_in ''Brain'' n) \<longleftrightarrow> spec_strict_match d"
proof (cases "name d")
  case None
  then show ?thesis by (simp add: spec_strict_match_def)
next
  case (Some n)
  have "sublist ''Brain'' n \<Longrightarrow> n \<noteq> []" by auto
  then show ?thesis
    unfolding spec_strict_match_def Some str_in_sublist by auto
qed


lemma find_device_find: "find_device devices = List.find spec_keyword_match devices"
proof (induction devices)
  case Nil
  show ?case by simp
next
  case (Cons device devices)
  show ?case
    unfolding find_device.simps find.simps keyword_test Cons.IH ..
qed

lemma scan_loop_find: "scan_loop devices = List.find spec_strict_match devices"
proof (induction devices)
  case Nil
  show ?case by simp
next
  case (Cons device devices)
  show ?case
    unfolding scan_loop.simps find.simps strict_test Cons.IH ..
qed

lemma scan_for_brainlink_find: "scan_for_brainlink devices = List.find spec_strict_match devices"
  by (cases devices) (simp_all add: scan_for_brainlink_def scan_loop_find)

lemma lower_BrainLink_Pro: "lower ''BrainLink Pro'' = ''brainlink pro''"
  by code_simp

lemma lower_EEG_Headset: "lower ''EEG-Headset'' = ''eeg-headset''"
  by code_simp

lemma sublist_brain: "sublist ''brain'' ''brainlink pro''"
  by code_simp

lemma sublist_Brain: "sublist ''Brain'' ''BrainLink Pro''"
  by code_simp

lemma sublist_eeg: "sublist ''eeg'' ''eeg-headset''"
  by code_simp


text \<open>
  C5. For every sequence of scan results, \<open>find_device\<close> returns the first result in
  scan order whose name is present and whose lower-cased name contains one of the
  keywords brainlink, brain, eeg, neuro; \<open>scan_for_brainlink\<close> (the stricter variant)
  returns the first result whose name is present and contains the exact substring
  \<open>Brain\<close>; both return nothing on the empty sequence and when no result matches. A
  device named \<open>BrainLink Pro\<close> is returned by both, and a device named
  \<open>EEG-Headset\<close> matches through the keyword eeg.
\<close>

theorem device_matcher_first_match:
  "spec_first_match spec_keyword_match devices (find_device devices) \<and>
   spec_first_match spec_strict_match devices (scan_for_brainlink devices) \<and>
   find_device [] = None \<and> scan_for_brainlink [] = None \<and>
   (name d = Some ''BrainLink Pro'' \<longrightarrow>
      spec_keyword_match d \<and> spec_strict_match d \<and>
      find_device [d] = Some d \<and> scan_for_brainlink [d] = Some d) \<and>
   (name e = Some ''EEG-Headset'' \<longrightarrow>
      sublist ''eeg'' (lower ''EEG-Headset'') \<and> spec_keyword_match e \<and> find_device [e] = Some e)"
proof -
  have a: "spec_first_match spec_keyword_match devices (find_device devices)"
    unfolding find_device_find by (rule first_match_find)
  have b: "spec_first_match spec_strict_match devices (scan_for_brainlink devices)"
    unfolding scan_for_brainlink_find by (rule first_match_find)
  have c: "find_device [] = None" by simp
  have c': "scan_for_brainlink [] = None" by (simp add: scan_for_brainlink_def)
  have f: "spec_keyword_match d \<and> spec_strict_match d \<and>
      find_device [d] = Some d \<and> scan_for_brainlink [d] = Some d"
    if d: "name d = Some ''BrainLink Pro''"
  proof -
    have "''brain'' \<in> {''brainlink'', ''brain'', ''eeg'', ''neuro''}" by simp
    then have k: "spec_keyword_match d"
      unfolding spec_keyword_match_def using d lower_BrainLink_Pro sublist_brain by metis
    have s: "spec_strict_match d"
      unfolding spec_strict_match_def using d sublist_Brain by blast
    have "find_device [d] = Some d" unfolding find_device_find using k by simp
    moreover have "scan_for_brainlink [d] = Some d" unfolding scan_for_brainlink_find using s by simp
    ultimately show ?thesis using k s by blast
  qed
  have g: "sublist ''eeg'' (lower ''EEG-Headset'') \<and> spec_keyword_match e \<and> find_device [e] = Some e"
    if e: "name e = Some ''EEG-Headset''"
  proof -
    have l: "sublist ''eeg'' (lower ''EEG-Headset'')"
      unfolding lower_EEG_Headset by (rule sublist_eeg)
    have "''eeg'' \<in> {''brainlink'', ''brain'', ''eeg'', ''neuro''}" by simp
    then have k: "spec_keyword_match e"
      unfolding spec_keyword_match_def using e l by metis
    have "find_device [e] = Some e" unfolding find_device_find using k by simp
    then show ?thesis using l k by blast
  qed
  show ?thesis using a b c c' f g by blast
qed

theorem device_matcher_first_match_witness:
  "name \<lparr> name = Some ''BrainLink Pro'', address = ''AA:BB'' \<rparr> = Some ''BrainLink Pro'' \<and>
   find_device [\<lparr> name = Some ''BrainLink Pro'', address = ''AA:BB'' \<rparr>] =
     Some \<lparr> name = Some ''BrainLink Pro'', address = ''AA:BB'' \<rparr> \<and>
   scan_for_brainlink [\<lparr> name = Some ''BrainLink Pro'', address = ''AA:BB'' \<rparr>] =
     Some \<lparr> name = Some ''BrainLink Pro'', address = ''AA:BB'' \<rparr> \<and>
   name \<lparr> name = Some ''EEG-Headset'', address = ''CC:DD'' \<rparr> = Some ''EEG-Headset'' \<and>
   find_device [\<lparr> name = Some ''EEG-Headset'', address = ''CC:DD'' \<rparr>] =
     Some \<lparr> name = Some ''EEG-Headset'', address = ''CC:DD'' \<rparr>"
proof -
  have h1: "name \<lparr> name = Some ''BrainLink Pro'', address = ''AA:BB'' \<rparr> = Some ''BrainLink Pro''"
    by simp
  have h2: "name \<lparr> name = Some ''EEG-Headset'', address = ''CC:DD'' \<rparr> = Some ''EEG-Headset''"
    by simp
  show ?thesis
    using h1 h2
      device_matcher_first_match [where d = "\<lparr> name = Some ''BrainLink Pro'', address = ''AA:BB'' \<rparr>"
        and e = "\<lparr> name = Some ''EEG-Headset'', address = ''CC:DD'' \<rparr>"]
    by blast
qed

section \<open>Properties of service and characteristic resolution\<close>

lemma resolve_first_None_iff:
  "resolve_first get candidates = None \<longleftrightarrow>
     (\<forall>c\<in>set candidates. \<forall>x. get c \<noteq> Inr (Some x))"
  by (induction candidates) (auto split: sum.splits option.splits)

lemma resolve_first_Some_iff:
  "resolve_first get candidates = Some found \<longleftrightarrow>
     (\<exists>i<length candidates. get (candidates ! i) = Inr (Some found) \<and>
        (\<forall>j<i. \<forall>x. get (candidates ! j) \<noteq> Inr (Some x)))"
proof (induction candidates)
  case Nil
  show ?case by simp
next
  case (Cons c cs)
  show ?case
  proof (cases "\<exists>x. get c = Inr (Some x)")
    case True
    then obtain y where y: "get c = Inr (Some y)" by blast
    have "(\<exists>i<length (c # cs). get ((c # cs) ! i) = Inr (Some found) \<and>
        (\<forall>j<i. \<forall>x. get ((c # cs) ! j) \<noteq> Inr (Some x))) \<longleftrightarrow> y = found"
    proof
      assume "\<exists>i<length (c # cs). get ((c # cs) ! i) = Inr (Some found) \<and>
        (\<forall>j<i. \<forall>x. get ((c # cs) ! j) \<noteq> Inr (Some x))"
      then obtain i where i: "get ((c # cs) ! i) = Inr (Some found)"
        "\<forall>j<i. \<forall>x. get ((c # cs) ! j) \<noteq> Inr (Some x)" by blast
      have "i = 0"
      proof (rule ccontr)
        assume "i \<noteq> 0"
        then have "0 < i" by simp
        with i(2) have "get ((c # cs) ! 0) \<noteq> Inr (Some y)" by blast
        with y show False by simp
      qed
      with i(1) y show "y = found" by simp
    next
      assume "y = found"
      with y have "0 < length (c # cs) \<and> get ((c # cs) ! 0) = Inr (Some found) \<and>
        (\<forall>j<0. \<forall>x. get ((c # cs) ! j) \<noteq> Inr (Some x))" by simp
      then show "\<exists>i<length (c # cs). get ((c # cs) ! i) = Inr (Some found) \<and>
        (\<forall>j<i. \<forall>x. get ((c # cs) ! j) \<noteq> Inr (Some x))" by blast
    qed
    moreover have "resolve_first get (c # cs) = Some y" using y by simp
    ultimately show ?thesis by auto
  next
    case False
    then have skip: "resolve_first get (c # cs) = resolve_first get cs"
      by (auto split: sum.splits option.splits)
    have "(\<exists>i<length (c # cs). get ((c # cs) ! i) = Inr (Some found) \<and>
        (\<forall>j<i. \<forall>x. get ((c # cs) ! j) \<noteq> Inr (Some x))) \<longleftrightarrow>
      (\<exists>i<length cs. get (cs ! i) = Inr (Some found) \<and>
        (\<forall>j<i. \<forall>x. get (cs ! j) \<noteq> Inr (Some x)))"
    proof
      assume "\<exists>i<length (c # cs). get ((c # cs) ! i) = Inr (Some found) \<and>
        (\<forall>j<i. \<forall>x. get ((c # cs) ! j) \<noteq> Inr (Some x))"
      then obtain i where i: "i < length (c # cs)" "get ((c # cs) ! i) = Inr (Some found)"
        "\<forall>j<i. \<forall>x. get ((c # cs) ! j) \<noteq> Inr (Some x)" by blast
      from i(2) False have "i \<noteq> 0" by (cases i) auto
      then obtain k where k: "i = Suc k" by (cases i) auto
      have "k < length cs" using i(1) k by simp
      moreover have "get (cs ! k) = Inr (Some found)" using i(2) k by simp
      moreover have "\<forall>j<k. \<forall>x. get (cs ! j) \<noteq> Inr (Some x)"
      proof (intro allI impI)
        fix j x assume "j < k"
        then have "Suc j < i" using k by simp
        with i(3) have "get ((c # cs) ! Suc j) \<noteq> Inr (Some x)" by blast
        then show "get (cs ! j) \<noteq> Inr (Some x)" by simp
      qed
      ultimately show "\<exists>i<length cs. get (cs ! i) = Inr (Some found) \<and>
        (\<forall>j<i. \<forall>x. get (cs ! j) \<noteq> Inr (Some x))" by blast
    next
      assume "\<exists>i<length cs. get (cs ! i) = Inr (Some found) \<and>
        (\<forall>j<i. \<forall>x. get (cs ! j) \<noteq> Inr (Some x))"
      then obtain k where k: "k < length cs" "get (cs ! k) = Inr (Some found)"
        "\<forall>j<k. \<forall>x. get (cs ! j) \<noteq> Inr (Some x)" by blast
      have "Suc k < length (c # cs)" using k(1) by simp
      moreover have "get ((c # cs) ! Suc k) = Inr (Some found)" using k(2) by simp
      moreover have "\<forall>j<Suc k. \<forall>x. get ((c # cs) ! j) \<noteq> Inr (Some x)"
      proof (intro allI impI)
        fix j x assume j: "j < Suc k"
        show "get ((c # cs) ! j) \<noteq> Inr (Some x)"
        proof (cases j)
          case 0
          with False show ?thesis by auto
        next
          case (Suc j')
          with j have "j' < k" by simp
          with k(3) Suc show ?thesis by simp
        qed
      qed
      ultimately show "\<exists>i<length (c # cs). get ((c # cs) ! i) = Inr (Some found) \<and>
        (\<forall>j<i. \<forall>x. get ((c # cs) ! j) \<noteq> Inr (Some x))" by blast
    qed
    with skip Cons.IH show ?thesis by simp
  qed
qed

lemma duplicated_lookup_resolves:
  "3 < length POSSIBLE_SERVICE_UUIDS \<and>
   duplicated_service_lookup (POSSIBLE_SERVICE_UUIDS ! 3) =
     Inr (Some ''0000ffe0-0000-1000-8000-00805f9b34fb'') \<and>
   (\<forall>j<3. \<forall>x. duplicated_service_lookup (POSSIBLE_SERVICE_UUIDS ! j) \<noteq> Inr (Some x))"
  by (simp add: POSSIBLE_SERVICE_UUIDS_def duplicated_service_lookup_def lookup_available_def
      numeral_3_eq_3 less_Suc_eq)


lemma resolve_first_available_find:
  "resolve_first (lookup_available available) candidates =
     List.find (\<lambda>candidate. candidate \<in> available) candidates"
  by (induction candidates) (simp_all add: lookup_available_def)

lemma connect_found_service_find:
  "connect_found_service services =
     List.find (\<lambda>service_uuid. service_uuid \<in> set POSSIBLE_SERVICE_UUIDS) services"
  by (induction services) simp_all

lemma resolve_first_swallows_exception:
  "get candidate = Inl e \<Longrightarrow>
   resolve_first get (candidate # candidates) = resolve_first get candidates"
  by simp

text \<open>
  C4, as stated, fails in two ways. The service loop of connect.py follows the
  peripheral's order: when the peripheral reports \<open>0000ffe0\<close> before \<open>0000fee9\<close>,
  it keeps \<open>0000ffe0\<close>, although \<open>0000fee9\<close> comes first in the candidate list (and
  is what the candidate search of brainconnect.py returns for the same peripheral). And
  the candidate search of brainconnect.py skips a candidate whose lookup raises: on the
  peripheral that carries \<open>0000fee9\<close> twice it returns \<open>0000ffe0\<close>, although
  \<open>0000fee9\<close> is on the peripheral and first in the candidate list.
\<close>

theorem connect_found_service_peripheral_order:
  "connect_found_service
      [''0000ffe0-0000-1000-8000-00805f9b34fb'', ''0000fee9-0000-1000-8000-00805f9b34fb'']
     = Some ''0000ffe0-0000-1000-8000-00805f9b34fb'' \<and>
   resolve_first
      (lookup_available
         (set [''0000ffe0-0000-1000-8000-00805f9b34fb'', ''0000fee9-0000-1000-8000-00805f9b34fb'']))
      POSSIBLE_SERVICE_UUIDS
     = Some ''0000fee9-0000-1000-8000-00805f9b34fb'' \<and>
   ''0000ffe0-0000-1000-8000-00805f9b34fb'' \<noteq> ''0000fee9-0000-1000-8000-00805f9b34fb'' \<and>
   duplicated_service_lookup ''0000fee9-0000-1000-8000-00805f9b34fb'' = Inl BleakError \<and>
   resolve_first duplicated_service_lookup POSSIBLE_SERVICE_UUIDS
     = Some ''0000ffe0-0000-1000-8000-00805f9b34fb''"
  by (simp add: POSSIBLE_SERVICE_UUIDS_def lookup_available_def duplicated_service_lookup_def)

text \<open>
  C4, amended. For every lookup of the stack and every candidate list, the candidate
  searches of brainconnect.py return the object found for the first candidate, in
  candidate-list order, whose lookup returns an object; a candidate whose lookup returns
  \<open>None\<close> or raises counts as absent and is skipped; they return nothing exactly when
  no candidate's lookup returns an object. On a peripheral whose lookups never raise,
  given by its set of available UUIDs (the empty set included), this is the first UUID
  in candidate-list order that is available, and nothing exactly when no candidate is
  available. The service loop of connect.py returns the first service in the order the
  peripheral reports them whose UUID is a candidate, and nothing exactly when no
  candidate is reported; it too returns nothing on an empty report.
\<close>

theorem resolution_first_match:
  "(resolve_first get candidates = Some found \<longleftrightarrow>
      (\<exists>i<length candidates. get (candidates ! i) = Inr (Some found) \<and>
          (\<forall>j<i. \<forall>x. get (candidates ! j) \<noteq> Inr (Some x)))) \<and>
   (resolve_first get candidates = None \<longleftrightarrow>
      (\<forall>c\<in>set candidates. \<forall>x. get c \<noteq> Inr (Some x))) \<and>
   (get c = Inl e \<longrightarrow> resolve_first get (c # candidates) = resolve_first get candidates) \<and>
   (resolve_first (lookup_available available) candidates = Some u \<longleftrightarrow>
      (\<exists>i<length candidates. candidates ! i = u \<and> u \<in> available \<and>
          (\<forall>j<i. candidates ! j \<notin> available))) \<and>
   (resolve_first (lookup_available available) candidates = None \<longleftrightarrow>
      (\<forall>c\<in>set candidates. c \<notin> available)) \<and>
   resolve_first (lookup_available {}) candidates = None \<and>
   (connect_found_service services = Some u \<longleftrightarrow>
      (\<exists>i<length services. services ! i = u \<and> u \<in> set POSSIBLE_SERVICE_UUIDS \<and>
          (\<forall>j<i. services ! j \<notin> set POSSIBLE_SERVICE_UUIDS))) \<and>
   (connect_found_service services = None \<longleftrightarrow>
      (\<forall>c\<in>set POSSIBLE_SERVICE_UUIDS. c \<notin> set services)) \<and>
   connect_found_service [] = None"
proof -
  have g1: "resolve_first get candidates = Some found \<longleftrightarrow>
      (\<exists>i<length candidates. get (candidates ! i) = Inr (Some found) \<and>
          (\<forall>j<i. \<forall>x. get (candidates ! j) \<noteq> Inr (Some x)))"
    by (rule resolve_first_Some_iff)
  have g2: "resolve_first get candidates = None \<longleftrightarrow>
      (\<forall>c\<in>set candidates. \<forall>x. get c \<noteq> Inr (Some x))"
    by (rule resolve_first_None_iff)
  have g3: "get c = Inl e \<longrightarrow> resolve_first get (c # candidates) = resolve_first get candidates"
    by simp
  have a: "resolve_first (lookup_available available) candidates = Some u \<longleftrightarrow>
      (\<exists>i<length candidates. candidates ! i = u \<and> u \<in> available \<and>
          (\<forall>j<i. candidates ! j \<notin> available))"
    unfolding resolve_first_available_find find_Some_iff by blast
  have b: "resolve_first (lookup_available A) candidates = None \<longleftrightarrow>
      (\<forall>c\<in>set candidates. c \<notin> A)" for A
    unfolding resolve_first_available_find find_None_iff by blast
  have c: "resolve_first (lookup_available {}) candidates = None"
    unfolding b by simp
  have d: "connect_found_service services = Some u \<longleftrightarrow>
      (\<exists>i<length services. services ! i = u \<and> u \<in> set POSSIBLE_SERVICE_UUIDS \<and>
          (\<forall>j<i. services ! j \<notin> set POSSIBLE_SERVICE_UUIDS))"
    unfolding connect_found_service_find find_Some_iff by blast
  have e: "connect_found_service services = None \<longleftrightarrow>
      (\<forall>c\<in>set POSSIBLE_SERVICE_UUIDS. c \<notin> set services)"
    unfolding connect_found_service_find find_None_iff by blast
  have f: "connect_found_service [] = None" by simp
  show ?thesis
    by (intro conjI) (rule g1 g2 g3 a b [of available] c d e f)+
qed

theorem resolution_first_match_witness:
  "duplicated_service_lookup ''0000fee9-0000-1000-8000-00805f9b34fb'' = Inl BleakError \<and>
   resolve_first duplicated_service_lookup POSSIBLE_SERVICE_UUIDS
     = Some ''0000ffe0-0000-1000-8000-00805f9b34fb'' \<and>
   resolve_first (lookup_available {}) POSSIBLE_SERVICE_UUIDS = None \<and>
   resolve_first
      (lookup_available
         {''0000ffe0-0000-1000-8000-00805f9b34fb'', ''0000fee9-0000-1000-8000-00805f9b34fb''})
      POSSIBLE_SERVICE_UUIDS
     = Some ''0000fee9-0000-1000-8000-00805f9b34fb'' \<and>
   connect_found_service
      [''0000ffe0-0000-1000-8000-00805f9b34fb'', ''0000fee9-0000-1000-8000-00805f9b34fb'']
     = Some ''0000ffe0-0000-1000-8000-00805f9b34fb''"
proof -
  let ?fee9 = "''0000fee9-0000-1000-8000-00805f9b34fb''"
  let ?ffe0 = "''0000ffe0-0000-1000-8000-00805f9b34fb''"
  have d0: "duplicated_service_lookup ?fee9 = Inl BleakError"
    by (simp add: duplicated_service_lookup_def)
  have e0: "\<exists>i<length POSSIBLE_SERVICE_UUIDS.
      duplicated_service_lookup (POSSIBLE_SERVICE_UUIDS ! i) = Inr (Some ?ffe0) \<and>
      (\<forall>j<i. \<forall>x. duplicated_service_lookup (POSSIBLE_SERVICE_UUIDS ! j) \<noteq> Inr (Some x))"
    using duplicated_lookup_resolves by (intro exI [of _ 3]) simp
  have e1: "\<exists>i<length POSSIBLE_SERVICE_UUIDS. POSSIBLE_SERVICE_UUIDS ! i = ?fee9 \<and>
      ?fee9 \<in> {?ffe0, ?fee9} \<and> (\<forall>j<i. POSSIBLE_SERVICE_UUIDS ! j \<notin> {?ffe0, ?fee9})"
    by (rule exI [of _ 0]) (simp add: POSSIBLE_SERVICE_UUIDS_def)
  have e2: "\<exists>i<length [?ffe0, ?fee9]. [?ffe0, ?fee9] ! i = ?ffe0 \<and>
      ?ffe0 \<in> set POSSIBLE_SERVICE_UUIDS \<and> (\<forall>j<i. [?ffe0, ?fee9] ! j \<notin> set POSSIBLE_SERVICE_UUIDS)"
    by (rule exI [of _ 0]) (simp add: POSSIBLE_SERVICE_UUIDS_def)
  have rd: "resolve_first duplicated_service_lookup POSSIBLE_SERVICE_UUIDS = Some ?ffe0"
    using e0 by (rule resolution_first_match [THEN conjunct1, THEN iffD2])
  have r0: "resolve_first (lookup_available {}) POSSIBLE_SERVICE_UUIDS = None"
    by (rule resolution_first_match [THEN conjunct2, THEN conjunct2, THEN conjunct2, THEN conjunct2, THEN conjunct2,
          THEN conjunct1])
  have r1: "resolve_first (lookup_available {?ffe0, ?fee9}) POSSIBLE_SERVICE_UUIDS = Some ?fee9"
    using e1 by (rule resolution_first_match [THEN conjunct2, THEN conjunct2, THEN conjunct2, THEN conjunct1, THEN iffD2])
  have r2: "connect_found_service [?ffe0, ?fee9] = Some ?ffe0"
    using e2 by (rule resolution_first_match [THEN conjunct2, THEN conjunct2, THEN conjunct2, THEN conjunct2,
          THEN conjunct2, THEN conjunct2, THEN conjunct1, THEN iffD2])
  show ?thesis
    using d0 rd r0 r1 r2 by (intro conjI)
qed

section \<open>Properties of the session functions\<close>

lemma demo_find_device:
  "find_device [\<lparr> name = Some ''RandomBT'', address = ''11:22'' \<rparr>,
                \<lparr> name = Some ''BrainLink_Pro'', address = ''AA:BB'' \<rparr>] =
     Some \<lparr> name = Some ''BrainLink_Pro'', address = ''AA:BB'' \<rparr>"
  by code_simp

lemma demo_resolve_service:
  "resolve_first
     (\<lambda>candidate. if candidate = ''0000fee9-0000-1000-8000-00805f9b34fb''
        then Inr (Some demo_service) else Inr None)
     POSSIBLE_SERVICE_UUIDS = Some demo_service"
  by (simp add: POSSIBLE_SERVICE_UUIDS_def)

lemma demo_resolve_characteristic:
  "resolve_first (get_characteristic demo_service) POSSIBLE_CHARACTERISTIC_UUIDS =
     Some ''0000fee1-0000-1000-8000-00805f9b34fb''"
  by (simp add: demo_service_def POSSIBLE_CHARACTERISTIC_UUIDS_def lookup_available_def)

lemma connect_to_device_demo:
  "connect_to_device demo_ble \<lparr> connected_client = h, calls = [] \<rparr> =
     (Inr True,
      \<lparr> connected_client = Some ''AA:BB'',
        calls = [Discover, Connect ''AA:BB'', GetServices ''AA:BB'',
                 StartNotify ''AA:BB'' ''0000fee1-0000-1000-8000-00805f9b34fb''] \<rparr>)"
  by (simp add: connect_to_device_def demo_ble_def log_def Let_def demo_find_device
      demo_resolve_service demo_resolve_characteristic
      del: find_device.simps resolve_first.simps)


lemma connect_to_device_handle_free:
  "fst (connect_to_device env (s\<lparr>connected_client := h\<rparr>)) = fst (connect_to_device env s) \<and>
   calls (snd (connect_to_device env (s\<lparr>connected_client := h\<rparr>))) =
     calls (snd (connect_to_device env s))"
  by (simp add: connect_to_device_def log_def Let_def split: sum.split option.split)

lemma connect_to_device_success:
  assumes "fst (connect_to_device env s) = Inr True"
  shows "\<exists>devices device. discover env = Inr devices \<and> find_device devices = Some device \<and>
           connect env (address device) = Inr () \<and>
           connected_client (snd (connect_to_device env s)) = Some (address device) \<and>
           Connect (address device) \<in> set (calls (snd (connect_to_device env s)))"
  using assms
  by (auto simp: connect_to_device_def log_def Let_def split: sum.splits option.splits)

lemma connect_to_device_failure:
  assumes "fst (connect_to_device env s) \<noteq> Inr True"
  shows "connected_client (snd (connect_to_device env s)) = connected_client s"
  using assms
  by (auto simp: connect_to_device_def log_def Let_def split: sum.splits option.splits)

lemma connect_to_device_no_disconnect:
  "Disconnect c \<in> set (calls (snd (connect_to_device env s))) \<Longrightarrow> Disconnect c \<in> set (calls s)"
  by (auto simp: connect_to_device_def log_def Let_def split: sum.splits option.splits)

text \<open>
  C6, as stated, fails: with a session handle already stored (client \<open>11:22\<close>),
  \<open>connect_to_device\<close> scans, connects to the matched device, subscribes, returns
  \<open>True\<close> and overwrites the handle; the earlier client is never disconnected.
\<close>

theorem connect_to_device_replaces_handle:
  "connect_to_device demo_ble \<lparr> connected_client = Some ''11:22'', calls = [] \<rparr> =
     (Inr True,
      \<lparr> connected_client = Some ''AA:BB'',
        calls = [Discover, Connect ''AA:BB'', GetServices ''AA:BB'',
                 StartNotify ''AA:BB'' ''0000fee1-0000-1000-8000-00805f9b34fb''] \<rparr>)"
  by (rule connect_to_device_demo)

text \<open>
  C6, amended. \<open>connect_to_device\<close> has no guard on an active session: its result and
  the calls it makes to the stack do not depend on the stored handle. Whenever it
  returns \<open>True\<close> it has connected to the matched device and the stored handle is the
  new client (replacing any earlier one); whenever it does not return \<open>True\<close> the
  stored handle is left as it was. It never disconnects a client. The module variable
  holds at most one handle.
\<close>

theorem connect_to_device_no_guard:
  "fst (connect_to_device env (s\<lparr>connected_client := h\<rparr>)) = fst (connect_to_device env s) \<and>
   calls (snd (connect_to_device env (s\<lparr>connected_client := h\<rparr>))) =
     calls (snd (connect_to_device env s)) \<and>
   (fst (connect_to_device env s) = Inr True \<longrightarrow>
      (\<exists>devices device. discover env = Inr devices \<and> find_device devices = Some device \<and>
           connect env (address device) = Inr () \<and>
           connected_client (snd (connect_to_device env s)) = Some (address device) \<and>
           Connect (address device) \<in> set (calls (snd (connect_to_device env s))))) \<and>
   (fst (connect_to_device env s) \<noteq> Inr True \<longrightarrow>
      connected_client (snd (connect_to_device env s)) = connected_client s) \<and>
   (Disconnect c \<in> set (calls (snd (connect_to_device env s))) \<longrightarrow>
      Disconnect c \<in> set (calls s))"
  using connect_to_device_handle_free [where env = env and s = s and h = h]
    connect_to_device_success [where env = env and s = s]
    connect_to_device_failure [where env = env and s = s]
    connect_to_device_no_disconnect [where env = env and s = s and c = c]
  by blast

theorem connect_to_device_no_guard_witness:
  "fst (connect_to_device demo_ble \<lparr> connected_client = Some ''11:22'', calls = [] \<rparr>) = Inr True \<and>
   fst (connect_to_device demo_ble
          (\<lparr> connected_client = Some ''11:22'', calls = [] \<rparr>\<lparr>connected_client := None\<rparr>)) = Inr True \<and>
   fst (connect_to_device (demo_ble\<lparr>discover := Inr []\<rparr>)
          \<lparr> connected_client = Some ''11:22'', calls = [] \<rparr>) \<noteq> Inr True \<and>
   connected_client (snd (connect_to_device (demo_ble\<lparr>discover := Inr []\<rparr>)
          \<lparr> connected_client = Some ''11:22'', calls = [] \<rparr>)) = Some ''11:22''"
proof -
  let ?s = "\<lparr> connected_client = Some ''11:22'', calls = [] \<rparr>"
  have h1: "fst (connect_to_device demo_ble ?s) = Inr True"
    by (simp add: connect_to_device_demo)
  have h2: "fst (connect_to_device (demo_ble\<lparr>discover := Inr []\<rparr>) ?s) \<noteq> Inr True"
    by (simp add: connect_to_device_def demo_ble_def log_def)
  note t1 = connect_to_device_no_guard [where env = demo_ble and s = ?s and h = None]
  note t2 = connect_to_device_no_guard [where env = "demo_ble\<lparr>discover := Inr []\<rparr>" and s = ?s]
  have a: "fst (connect_to_device demo_ble (?s\<lparr>connected_client := None\<rparr>)) = Inr True"
    using t1 [THEN conjunct1] h1 by (simp only:)
  have b: "connected_client (snd (connect_to_device (demo_ble\<lparr>discover := Inr []\<rparr>) ?s)) =
      connected_client ?s"
    using t2 [THEN conjunct2, THEN conjunct2, THEN conjunct2, THEN conjunct1] h2 by (rule mp)
  have c: "connected_client ?s = Some ''11:22''" by simp
  show ?thesis
    using h1 a h2 b c by (simp only: simp_thms)
qed

text \<open>
  C10, as stated, fails when the stack's \<open>disconnect\<close> raises: the exception leaves
  \<open>disconnect_from_device\<close> before the handle is cleared, so after the call the
  handle is still stored.
\<close>

theorem disconnect_from_device_keeps_handle_on_error:
  "disconnect_from_device failing_ble \<lparr> connected_client = Some ''AA:BB'', calls = [] \<rparr> =
     (Inl BleakError, \<lparr> connected_client = Some ''AA:BB'', calls = [Disconnect ''AA:BB''] \<rparr>)"
  by (simp add: disconnect_from_device_def failing_ble_def demo_ble_def log_def)

text \<open>
  C10, amended. With no handle stored, \<open>disconnect_from_device\<close> makes no call and
  leaves the state unchanged. With a handle stored and a \<open>disconnect\<close> that returns,
  it makes exactly that one call and clears the handle. After any call that returns
  normally the handle is cleared, and a second call changes nothing (idempotence).
  When \<open>disconnect\<close> raises, the exception propagates and the handle stays stored.
\<close>

theorem disconnect_from_device_idempotent:
  "(connected_client s = None \<longrightarrow> disconnect_from_device env s = (Inr (), s)) \<and>
   (fst (disconnect_from_device env s) = Inr () \<longrightarrow>
      connected_client (snd (disconnect_from_device env s)) = None \<and>
      disconnect_from_device env (snd (disconnect_from_device env s)) =
        (Inr (), snd (disconnect_from_device env s))) \<and>
   (connected_client s = Some client \<and> disconnect env client = Inr () \<longrightarrow>
      disconnect_from_device env s =
        (Inr (), s\<lparr>connected_client := None, calls := calls s @ [Disconnect client]\<rparr>)) \<and>
   (connected_client s = Some client \<and> disconnect env client = Inl e \<longrightarrow>
      disconnect_from_device env s = (Inl e, s\<lparr>calls := calls s @ [Disconnect client]\<rparr>))"
  by (auto simp: disconnect_from_device_def log_def Let_def split: option.splits sum.splits)

theorem disconnect_from_device_idempotent_witness:
  "connected_client \<lparr> connected_client = None, calls = [] \<rparr> = None \<and>
   disconnect_from_device demo_ble \<lparr> connected_client = None, calls = [] \<rparr> =
     (Inr (), \<lparr> connected_client = None, calls = [] \<rparr>) \<and>
   connected_client \<lparr> connected_client = Some ''AA:BB'', calls = [] \<rparr> = Some ''AA:BB'' \<and>
   disconnect demo_ble ''AA:BB'' = Inr () \<and>
   disconnect_from_device demo_ble \<lparr> connected_client = Some ''AA:BB'', calls = [] \<rparr> =
     (Inr (), \<lparr> connected_client = None, calls = [Disconnect ''AA:BB''] \<rparr>) \<and>
   disconnect failing_ble ''AA:BB'' = Inl BleakError \<and>
   disconnect_from_device failing_ble \<lparr> connected_client = Some ''AA:BB'', calls = [] \<rparr> =
     (Inl BleakError, \<lparr> connected_client = Some ''AA:BB'', calls = [Disconnect ''AA:BB''] \<rparr>)"
proof -
  have h1: "connected_client \<lparr> connected_client = None, calls = [] \<rparr> = None" by simp
  have h2: "connected_client \<lparr> connected_client = Some ''AA:BB'', calls = [] \<rparr> = Some ''AA:BB''"
    by simp
  have h3: "disconnect demo_ble ''AA:BB'' = Inr ()" by (simp add: demo_ble_def)
  have h4: "disconnect failing_ble ''AA:BB'' = Inl BleakError"
    by (simp add: failing_ble_def demo_ble_def)
  show ?thesis
    using h1 h2 h3 h4
      disconnect_from_device_idempotent [where s = "\<lparr> connected_client = None, calls = [] \<rparr>" and env = demo_ble]
      disconnect_from_device_idempotent [where s = "\<lparr> connected_client = Some ''AA:BB'', calls = [] \<rparr>" and env = demo_ble
        and client = "''AA:BB''"]
      disconnect_from_device_idempotent [where s = "\<lparr> connected_client = Some ''AA:BB'', calls = [] \<rparr>" and env = failing_ble
        and client = "''AA:BB''" and e = BleakError]
    by simp
qed

end
